theory Spec2Isabelle
  imports Main
begin

section \<open>The pooled HTTP client agent of \<^verbatim>\<open>client.go\<close>\<close>

text \<open>
  A shallow embedding of the Agent of \<^verbatim>\<open>src/client.go\<close>: the builder setters, the
  memoizing \<open>Parse\<close>, the execution calls \<open>Bytes\<close>, \<open>String\<close> and \<open>Struct\<close>, and the
  acquire/release pairs of the pools.

  Go strings and byte slices are \<open>string\<close> (a list of bytes). A pointer that may be
  \<^verbatim>\<open>nil\<close> is an \<open>option\<close>; dereferencing \<^verbatim>\<open>nil\<close> is the outcome \<open>Panic\<close>. The
  objects the code mutates in place are passed in and returned updated.
\<close>

subsection \<open>Errors and outcomes\<close>

datatype error =
    ErrorInvalidURI
      \<comment> \<open>\<^verbatim>\<open>fasthttp.ErrorInvalidURI\<close>\<close>
  | ErrUnsupportedProtocol string
      \<comment> \<open>\<^verbatim>\<open>fmt.Errorf("unsupported protocol %q. http and https are supported", scheme)\<close>\<close>
  | ErrMime string
      \<comment> \<open>an error of \<^verbatim>\<open>mime/multipart\<close>, with its message\<close>
  | Err string
      \<comment> \<open>an error reported by a collaborator: transport, file system, codec\<close>

datatype 'a outcome = Panic | Return 'a

subsection \<open>Requests, responses, transports\<close>

record URI =
  uri_scheme :: string
    \<comment> \<open>what \<^verbatim>\<open>uri.Scheme()\<close> returns\<close>
  uri_host :: string
    \<comment> \<open>what \<^verbatim>\<open>uri.Host()\<close> returns\<close>
  uri_queryString :: string
  uri_username :: string
  uri_password :: string

datatype part = FieldPart string | FilePart string string
  \<comment> \<open>a form field with its name; a form file with its field name and file name\<close>

datatype body_item =
    Raw string
  | Part string part string
      \<comment> \<open>boundary delimiting the part, its header, its content\<close>
  | CloseDelimiter string

datatype writer = Stdout | Writer nat

text \<open>
  The request header belongs to fasthttp. The model keeps the calls the Agent makes on
  it, in order, and does not interpret them.
\<close>

datatype header_op =
    H_Set string string
  | H_Add string string
  | H_SetConnectionClose
  | H_SetUserAgent string
  | H_SetCookie string string
  | H_SetReferer string
  | H_SetContentType string
  | H_SetMultipartFormBoundary string

record Request =
  req_method :: string
    \<comment> \<open>what \<^verbatim>\<open>req.Header.Method()\<close> returns\<close>
  req_uri :: "URI option"
    \<comment> \<open>what \<^verbatim>\<open>req.URI()\<close> returns to the guard of \<open>Parse\<close>, \<open>None\<close> for \<^verbatim>\<open>nil\<close>\<close>
  req_header :: "header_op list"
  req_body :: "body_item list"
  req_bodyStream :: "(nat \<times> int) option"
    \<comment> \<open>the body stream (a reader) and the body size given with it\<close>

text \<open>
  An empty request, new or reset, reads as fasthttp has it read: its method is GET, and
  its URI is an object with the scheme \<^verbatim>\<open>http\<close> and everything else empty. fasthttp
  gives every request a URI object; a request whose \<open>req_uri\<close> is \<open>None\<close> is there for
  the guard of \<open>Parse\<close> only.
\<close>

definition zero_URI :: URI where
  "zero_URI =
     \<lparr>uri_scheme = ''http'', uri_host = [], uri_queryString = [], uri_username = [],
      uri_password = []\<rparr>"

definition zero_Request :: Request where
  "zero_Request =
     \<lparr>req_method = ''GET'', req_uri = Some zero_URI, req_header = [], req_body = [],
      req_bodyStream = None\<rparr>"

text \<open>\<^verbatim>\<open>req.Reset()\<close>\<close>

definition Request_Reset :: "Request \<Rightarrow> Request" where
  "Request_Reset r = zero_Request"

record Response =
  StatusCode :: int
    \<comment> \<open>what \<^verbatim>\<open>resp.StatusCode()\<close> returns\<close>
  Body :: string

text \<open>An empty response, new or reset, reads the status code 200.\<close>

definition zero_Response :: Response where
  "zero_Response = \<lparr>StatusCode = 200, Body = []\<rparr>"

definition Response_Reset :: "Response \<Rightarrow> Response" where
  "Response_Reset r = zero_Response"

type_synonym Args = "(string \<times> string) list"

record tls_Config =
  InsecureSkipVerify_flag :: bool
  tls_settings :: nat
    \<comment> \<open>the other settings of a \<^verbatim>\<open>tls.Config\<close>, 0 for the zero value\<close>

record HostClient_t =
  Addr :: string
  hc_Name :: string
  hc_NoDefaultUserAgentHeader :: bool
  IsTLS :: bool
  hc_TLSConfig :: "tls_Config option"

record FormFile =
  Fieldname :: string
  ff_Name :: string
  Content :: string
  autoRelease :: bool

record Agent =
  HostClient :: "HostClient_t option"
  req :: Request
  customReq :: "Request option"
  args :: "Args option"
  timeout :: int
  errs :: "error list"
  formFiles :: "FormFile list"
  debugWriter :: "writer option"
  maxRedirectsCount :: int
  boundary :: string
  Name :: string
  NoDefaultUserAgentHeader :: bool
  reuse :: bool
  parsed :: bool

definition strHTTP :: string where "strHTTP = ''http''"
definition strHTTPS :: string where "strHTTPS = ''https''"
definition defaultUserAgent :: string where "defaultUserAgent = ''fiber''"
definition MethodGet :: string where "MethodGet = ''GET''"
definition MethodHead :: string where "MethodHead = ''HEAD''"
definition MethodPost :: string where "MethodPost = ''POST''"

subsection \<open>Parse\<close>

text \<open>\<^verbatim>\<open>strconv.Itoa\<close>: the decimal digits of an integer.\<close>

fun Itoa_nat :: "nat \<Rightarrow> string" where
  "Itoa_nat n =
     (if n < 10 then [char_of (48 + n)]
      else Itoa_nat (n div 10) @ [char_of (48 + n mod 10)])"

declare Itoa_nat.simps [simp del]

definition Itoa :: "int \<Rightarrow> string" where
  "Itoa i = (if i < 0 then CHR ''-'' # Itoa_nat (nat (- i)) else Itoa_nat (nat i))"

text \<open>\<^verbatim>\<open>net.JoinHostPort\<close>: a host with a colon is bracketed.\<close>

definition JoinHostPort :: "string \<Rightarrow> string \<Rightarrow> string" where
  "JoinHostPort h port =
     (if CHR '':'' \<in> set h then ''['' @ h @ '']:'' @ port else h @ '':'' @ port)"

definition addMissingPort :: "string \<Rightarrow> bool \<Rightarrow> string" where
  "addMissingPort addr isTLS =
     (if CHR '':'' \<in> set addr then addr
      else JoinHostPort addr (Itoa (if isTLS then 443 else 80)))"

text \<open>The request that \<open>Parse\<close> and \<open>Bytes\<close> use: the custom one when there is one.\<close>

definition request_of :: "Agent \<Rightarrow> Request" where
  "request_of a = (case customReq a of Some c \<Rightarrow> c | None \<Rightarrow> req a)"

text \<open>
  \<open>Parse\<close> returns the error (\<open>None\<close> for \<^verbatim>\<open>nil\<close>) and the Agent as it has left it.
  The flag \<open>parsed\<close> is set before the URI is looked at. \<open>bind\<close> is the end of \<open>Parse\<close>,
  from the choice of the name on: it sets the host client.
\<close>

definition bind :: "Agent \<Rightarrow> URI \<Rightarrow> bool \<Rightarrow> Agent" where
  "bind a u isTLS =
     (let name = (if Name a = [] \<and> \<not> NoDefaultUserAgentHeader a
                  then defaultUserAgent else Name a)
      in a\<lparr>HostClient := Some
             \<lparr>Addr = addMissingPort (uri_host u) isTLS,
              hc_Name = name,
              hc_NoDefaultUserAgentHeader = NoDefaultUserAgentHeader a,
              IsTLS = isTLS,
              hc_TLSConfig = None\<rparr>\<rparr>)"

definition Parse :: "Agent \<Rightarrow> error option \<times> Agent" where
  "Parse a =
     (if parsed a then (None, a)
      else
        let a1 = a\<lparr>parsed := True\<rparr>;
            r = request_of a1
        in case req_uri r of
             None \<Rightarrow> (Some ErrorInvalidURI, a1)
           | Some u \<Rightarrow>
               let sch = uri_scheme u in
               if sch = strHTTPS then (None, bind a1 u True)
               else if sch \<noteq> strHTTP then (Some (ErrUnsupportedProtocol sch), a1)
               else (None, bind a1 u False))"

subsection \<open>Header, URI and body setters\<close>

text \<open>
  A setter returns \<open>Return\<close> with the Agent it has mutated (the same reference in Go), or
  \<open>Panic\<close> where the code dereferences \<^verbatim>\<open>nil\<close>.
\<close>

definition header_call :: "header_op \<Rightarrow> Agent \<Rightarrow> Agent" where
  "header_call h a = a\<lparr>req := (req a)\<lparr>req_header := req_header (req a) @ [h]\<rparr>\<rparr>"

definition Set_header :: "string \<Rightarrow> string \<Rightarrow> Agent \<Rightarrow> Agent outcome" where
  "Set_header k v a = Return (header_call (H_Set k v) a)"

definition Add :: "string \<Rightarrow> string \<Rightarrow> Agent \<Rightarrow> Agent outcome" where
  "Add k v a = Return (header_call (H_Add k v) a)"

definition ConnectionClose :: "Agent \<Rightarrow> Agent outcome" where
  "ConnectionClose a = Return (header_call H_SetConnectionClose a)"

definition UserAgent :: "string \<Rightarrow> Agent \<Rightarrow> Agent outcome" where
  "UserAgent userAgent a = Return (header_call (H_SetUserAgent userAgent) a)"

definition Cookie :: "string \<Rightarrow> string \<Rightarrow> Agent \<Rightarrow> Agent outcome" where
  "Cookie key val a = Return (header_call (H_SetCookie key val) a)"

text \<open>The loop of \<open>Cookies\<close> takes the arguments two by two; a last one left alone is ignored.\<close>

fun Cookies_loop :: "string list \<Rightarrow> Agent \<Rightarrow> Agent" where
  "Cookies_loop (k # v # kv) a = Cookies_loop kv (header_call (H_SetCookie k v) a)"
| "Cookies_loop _ a = a"

definition Cookies :: "string list \<Rightarrow> Agent \<Rightarrow> Agent outcome" where
  "Cookies kv a = Return (Cookies_loop kv a)"

definition Referer :: "string \<Rightarrow> Agent \<Rightarrow> Agent outcome" where
  "Referer referer a = Return (header_call (H_SetReferer referer) a)"

definition ContentType :: "string \<Rightarrow> Agent \<Rightarrow> Agent outcome" where
  "ContentType contentType a = Return (header_call (H_SetContentType contentType) a)"

text \<open>
  The URI setters call a method of \<^verbatim>\<open>a.req.URI()\<close>, which writes to the fields of the
  URI object of the request. fasthttp returns the address of that object and never
  \<^verbatim>\<open>nil\<close>, so that the setters have nothing to dereference that could be \<^verbatim>\<open>nil\<close>: on
  a request with no URI yet they write to the empty one.
\<close>

definition uri_call :: "(URI \<Rightarrow> URI) \<Rightarrow> Agent \<Rightarrow> Agent outcome" where
  "uri_call f a =
     (let u = (case req_uri (req a) of None \<Rightarrow> zero_URI | Some u0 \<Rightarrow> u0)
      in Return (a\<lparr>req := (req a)\<lparr>req_uri := Some (f u)\<rparr>\<rparr>))"

definition Host :: "string \<Rightarrow> Agent \<Rightarrow> Agent outcome" where
  "Host h a = uri_call (\<lambda>u. u\<lparr>uri_host := h\<rparr>) a"

definition QueryString :: "string \<Rightarrow> Agent \<Rightarrow> Agent outcome" where
  "QueryString q a = uri_call (\<lambda>u. u\<lparr>uri_queryString := q\<rparr>) a"

definition BasicAuth :: "string \<Rightarrow> string \<Rightarrow> Agent \<Rightarrow> Agent outcome" where
  "BasicAuth user pass a = uri_call (\<lambda>u. u\<lparr>uri_username := user, uri_password := pass\<rparr>) a"

definition SetBody :: "string \<Rightarrow> Agent \<Rightarrow> Agent" where
  "SetBody b a = a\<lparr>req := (req a)\<lparr>req_body := [Raw b], req_bodyStream := None\<rparr>\<rparr>"

definition BodyString :: "string \<Rightarrow> Agent \<Rightarrow> Agent outcome" where
  "BodyString bodyString a = Return (SetBody bodyString a)"

definition BodyStream :: "nat \<Rightarrow> int \<Rightarrow> Agent \<Rightarrow> Agent outcome" where
  "BodyStream bodyStream bodySize a =
     Return (a\<lparr>req := (req a)\<lparr>req_body := [], req_bodyStream := Some (bodyStream, bodySize)\<rparr>\<rparr>)"

definition Request :: "Request option \<Rightarrow> Agent \<Rightarrow> Agent outcome" where
  "Request r a = Return (a\<lparr>customReq := r\<rparr>)"

definition MIMEApplicationJSON :: string where "MIMEApplicationJSON = ''application/json''"
definition MIMEApplicationXML :: string where "MIMEApplicationXML = ''application/xml''"
definition MIMEApplicationForm :: string where
  "MIMEApplicationForm = ''application/x-www-form-urlencoded''"

text \<open>
  \<open>JSON\<close> and \<open>XML\<close> take what the codec's \<^verbatim>\<open>Marshal(v)\<close> has returned: the error or
  the bytes.
\<close>

definition JSON :: "error + string \<Rightarrow> Agent \<Rightarrow> Agent outcome" where
  "JSON marshalled a =
     (let a1 = header_call (H_SetContentType MIMEApplicationJSON) a
      in case marshalled of
           Inl err \<Rightarrow> Return (a1\<lparr>errs := errs a1 @ [err]\<rparr>)
         | Inr b \<Rightarrow> Return (SetBody b a1))"

definition XML :: "error + string \<Rightarrow> Agent \<Rightarrow> Agent outcome" where
  "XML marshalled a =
     (let a1 = header_call (H_SetContentType MIMEApplicationXML) a
      in case marshalled of
           Inl err \<Rightarrow> Return (a1\<lparr>errs := errs a1 @ [err]\<rparr>)
         | Inr b \<Rightarrow> Return (SetBody b a1))"

text \<open>\<open>Form\<close> takes the encoder \<^verbatim>\<open>args.QueryString()\<close> of fasthttp as \<open>qs\<close>.\<close>

definition Form :: "(Args \<Rightarrow> string) \<Rightarrow> Args option \<Rightarrow> Agent \<Rightarrow> Agent outcome" where
  "Form qs as a =
     (let a1 = header_call (H_SetContentType MIMEApplicationForm) a
      in case as of None \<Rightarrow> Return a1 | Some kv \<Rightarrow> Return (SetBody (qs kv) a1))"

subsection \<open>Pools\<close>

datatype call = DoTimeout Request int | DoRedirects Request int | Do Request

text \<open>
  What lies outside the objects: the pools, the transport invocations made so far, and
  what has been printed to debug writers. A pool is a list; \<^verbatim>\<open>Put\<close> adds at the
  front and \<^verbatim>\<open>Get\<close> takes from the front, or finds the pool empty.
\<close>

record world =
  agentPool :: "Agent list"
  formFilePool :: "FormFile list"
  responsePool :: "Response list"
  trace :: "call list"
  debugOut :: "(writer \<times> Request \<times> Response) list"

definition zero_FormFile :: FormFile where
  "zero_FormFile = \<lparr>Fieldname = [], ff_Name = [], Content = [], autoRelease = False\<rparr>"

definition AcquireFormFile :: "world \<Rightarrow> FormFile \<times> world" where
  "AcquireFormFile w =
     (case formFilePool w of
        [] \<Rightarrow> (zero_FormFile, w)
      | v # vs \<Rightarrow> (v, w\<lparr>formFilePool := vs\<rparr>))"

definition ReleaseFormFile :: "FormFile \<Rightarrow> world \<Rightarrow> FormFile \<times> world" where
  "ReleaseFormFile ff w =
     (let ff1 = ff\<lparr>Fieldname := [], ff_Name := [], Content := [], autoRelease := False\<rparr>
      in (ff1, w\<lparr>formFilePool := ff1 # formFilePool w\<rparr>))"

definition AcquireResponse :: "world \<Rightarrow> Response \<times> world" where
  "AcquireResponse w =
     (case responsePool w of
        [] \<Rightarrow> (zero_Response, w)
      | v # vs \<Rightarrow> (v, w\<lparr>responsePool := vs\<rparr>))"

definition ReleaseResponse :: "Response \<Rightarrow> world \<Rightarrow> world" where
  "ReleaseResponse resp w = w\<lparr>responsePool := Response_Reset resp # responsePool w\<rparr>"

definition zero_Agent :: Agent where
  "zero_Agent =
     \<lparr>HostClient = None, req = zero_Request, customReq = None, args = None, timeout = 0,
      errs = [], formFiles = [], debugWriter = None, maxRedirectsCount = 0, boundary = [],
      Name = [], NoDefaultUserAgentHeader = False, reuse = False, parsed = False\<rparr>"

text \<open>A new Agent holds a request acquired from fasthttp, which is an empty one.\<close>

definition AcquireAgent :: "world \<Rightarrow> Agent \<times> world" where
  "AcquireAgent w =
     (case agentPool w of
        [] \<Rightarrow> (zero_Agent, w)
      | v # vs \<Rightarrow> (v, w\<lparr>agentPool := vs\<rparr>))"

text \<open>The loop of \<open>reset\<close> over the attached files: one with \<open>autoRelease\<close> goes to its pool.\<close>

fun reset_formFiles :: "FormFile list \<Rightarrow> world \<Rightarrow> world" where
  "reset_formFiles [] w = w"
| "reset_formFiles (ff # ffs) w =
     reset_formFiles ffs (if autoRelease ff then snd (ReleaseFormFile ff w) else w)"

definition reset :: "Agent \<Rightarrow> world \<Rightarrow> Agent \<times> world" where
  "reset a w =
     (a\<lparr>HostClient := None, req := Request_Reset (req a), customReq := None, timeout := 0,
        args := None, errs := [], debugWriter := None, reuse := False, parsed := False,
        maxRedirectsCount := 0, boundary := [], Name := [],
        NoDefaultUserAgentHeader := False, formFiles := []\<rparr>,
      reset_formFiles (formFiles a) w)"

definition ReleaseAgent :: "Agent \<Rightarrow> world \<Rightarrow> Agent \<times> world" where
  "ReleaseAgent a w =
     (case reset a w of (a1, w1) \<Rightarrow> (a1, w1\<lparr>agentPool := a1 # agentPool w1\<rparr>))"

definition release :: "Agent \<Rightarrow> world \<Rightarrow> Agent \<times> world" where
  "release a w = (if \<not> reuse a then ReleaseAgent a w else (a\<lparr>errs := []\<rparr>, w))"

subsection \<open>Files\<close>

text \<open>
  The files of an Agent are descriptors. The \<^verbatim>\<open>nil\<close> pointer, which \<open>FileData\<close> would
  store as it stores any other and which \<open>MultipartForm\<close> and \<open>reset\<close> would then
  dereference, is not a value of \<open>FormFile\<close>: no statement below is about an Agent that
  holds one.
\<close>

definition FileData :: "FormFile list \<Rightarrow> Agent \<Rightarrow> Agent outcome" where
  "FileData ffs a = Return (a\<lparr>formFiles := formFiles a @ ffs\<rparr>)"

text \<open>
  The file system and the path functions are collaborators: \<open>ReadFile\<close> is
  \<^verbatim>\<open>ioutil.ReadFile\<close>, \<open>Clean\<close> and \<open>Base\<close> are those of \<^verbatim>\<open>path/filepath\<close>.
\<close>

record files =
  ReadFile :: "string \<Rightarrow> error + string"
  Clean :: "string \<Rightarrow> string"
  Base :: "string \<Rightarrow> string"

definition SendFile :: "files \<Rightarrow> string \<Rightarrow> string list \<Rightarrow> Agent \<Rightarrow> world \<Rightarrow> Agent \<times> world" where
  "SendFile fs filename fieldname a w =
     (case ReadFile fs (Clean fs filename) of
        Inl err \<Rightarrow> (a\<lparr>errs := errs a @ [err]\<rparr>, w)
      | Inr content \<Rightarrow>
          (case AcquireFormFile w of
             (ff, w1) \<Rightarrow>
               let positional = ''file'' @ Itoa (int (length (formFiles a)) + 1);
                   ff1 = ff\<lparr>Fieldname :=
                              (case fieldname of
                                 [] \<Rightarrow> positional
                               | f # _ \<Rightarrow> if f \<noteq> [] then f else positional)\<rparr>;
                   ff2 = ff1\<lparr>ff_Name := Base fs filename\<rparr>;
                   ff3 = ff2\<lparr>Content := Content ff2 @ content\<rparr>;
                   ff4 = ff3\<lparr>autoRelease := True\<rparr>
               in (a\<lparr>formFiles := formFiles a @ [ff4]\<rparr>, w1)))"

text \<open>
  The loop of \<open>SendFiles\<close> runs over the padded list two entries at a time, from index 0
  while the index is below the length before padding.
\<close>

fun SendFiles_loop :: "files \<Rightarrow> string list \<Rightarrow> Agent \<Rightarrow> world \<Rightarrow> Agent \<times> world" where
  "SendFiles_loop fs (filename # fieldname # rest) a w =
     (case SendFile fs filename [fieldname] a w of (a1, w1) \<Rightarrow> SendFiles_loop fs rest a1 w1)"
| "SendFiles_loop fs _ a w = (a, w)"

definition SendFiles :: "files \<Rightarrow> string list \<Rightarrow> Agent \<Rightarrow> world \<Rightarrow> Agent \<times> world" where
  "SendFiles fs filenamesAndFieldnames a w =
     (let pairs = length filenamesAndFieldnames;
          padded = (if odd pairs then filenamesAndFieldnames @ [[]] else filenamesAndFieldnames)
      in SendFiles_loop fs padded a w)"

subsection \<open>Multipart form\<close>

definition Boundary :: "string \<Rightarrow> Agent \<Rightarrow> Agent outcome" where
  "Boundary b a = Return (a\<lparr>boundary := b\<rparr>)"

text \<open>
  The writer of \<^verbatim>\<open>mime/multipart\<close> over the body of the request, which is in memory,
  so that a write to it does not fail. The writer holds its boundary, what the body
  holds so far, and whether a part has been started.
\<close>

record Writer =
  w_boundary :: string
  w_sink :: "body_item list"
  w_lastpart :: bool

definition NewWriter :: "string \<Rightarrow> body_item list \<Rightarrow> Writer" where
  "NewWriter randomBoundary sink = \<lparr>w_boundary = randomBoundary, w_sink = sink, w_lastpart = False\<rparr>"

definition boundary_char :: "char \<Rightarrow> bool" where
  "boundary_char c =
     (let n = (of_char c :: nat)
      in (65 \<le> n \<and> n \<le> 90) \<or> (97 \<le> n \<and> n \<le> 122) \<or> (48 \<le> n \<and> n \<le> 57)
         \<or> c \<in> set (CHR 0x27 # ''()+_,-./:=?''))"

text \<open>A space is accepted anywhere but at the end of the boundary.\<close>

fun boundary_chars :: "string \<Rightarrow> bool" where
  "boundary_chars [] = True"
| "boundary_chars [c] = boundary_char c"
| "boundary_chars (c # cs) = ((boundary_char c \<or> c = CHR '' '') \<and> boundary_chars cs)"

definition SetBoundary :: "string \<Rightarrow> Writer \<Rightarrow> error option \<times> Writer" where
  "SetBoundary b mw =
     (if w_lastpart mw then (Some (ErrMime ''mime: SetBoundary called after write''), mw)
      else if length b < 1 \<or> length b > 70 then
        (Some (ErrMime ''mime: invalid boundary length''), mw)
      else if \<not> boundary_chars b then
        (Some (ErrMime ''mime: invalid boundary character''), mw)
      else (None, mw\<lparr>w_boundary := b\<rparr>))"

definition WriteField :: "string \<Rightarrow> string \<Rightarrow> Writer \<Rightarrow> error option \<times> Writer" where
  "WriteField fieldname val mw =
     (None, mw\<lparr>w_sink := w_sink mw @ [Part (w_boundary mw) (FieldPart fieldname) val],
               w_lastpart := True\<rparr>)"

definition CreateFormFile :: "string \<Rightarrow> string \<Rightarrow> Writer \<Rightarrow> error option \<times> Writer" where
  "CreateFormFile fieldname filename mw =
     (None, mw\<lparr>w_sink := w_sink mw @ [Part (w_boundary mw) (FilePart fieldname filename) []],
               w_lastpart := True\<rparr>)"

text \<open>Writing to the part that \<open>CreateFormFile\<close> has returned: the last part of the body.\<close>

definition part_Write :: "string \<Rightarrow> Writer \<Rightarrow> error option \<times> Writer" where
  "part_Write content mw =
     (case rev (w_sink mw) of
        Part b h d # front \<Rightarrow> (None, mw\<lparr>w_sink := rev front @ [Part b h (d @ content)]\<rparr>)
      | _ \<Rightarrow> (Some (ErrMime ''multipart: can't write to finished part''), mw))"

definition Writer_Close :: "Writer \<Rightarrow> error option \<times> Writer" where
  "Writer_Close mw = (None, mw\<lparr>w_sink := w_sink mw @ [CloseDelimiter (w_boundary mw)]\<rparr>)"

text \<open>
  The two loops of \<open>MultipartForm\<close> return the errors to append, in order, and the
  writer. A field that fails is skipped; a file whose part cannot be created is
  skipped (\<^verbatim>\<open>continue\<close>), and one whose content cannot be written stays as it is.
\<close>

fun write_fields :: "Args \<Rightarrow> Writer \<Rightarrow> error list \<times> Writer" where
  "write_fields [] mw = ([], mw)"
| "write_fields ((key, val) # kv) mw =
     (case WriteField key val mw of
        (Some err, mw1) \<Rightarrow> (case write_fields kv mw1 of (es, mw2) \<Rightarrow> (err # es, mw2))
      | (None, mw1) \<Rightarrow> write_fields kv mw1)"

fun write_files :: "FormFile list \<Rightarrow> Writer \<Rightarrow> error list \<times> Writer" where
  "write_files [] mw = ([], mw)"
| "write_files (ff # ffs) mw =
     (case CreateFormFile (Fieldname ff) (ff_Name ff) mw of
        (Some err, mw1) \<Rightarrow> (case write_files ffs mw1 of (es, mw2) \<Rightarrow> (err # es, mw2))
      | (None, mw1) \<Rightarrow>
          (case part_Write (Content ff) mw1 of
             (Some err, mw2) \<Rightarrow> (case write_files ffs mw2 of (es, mw3) \<Rightarrow> (err # es, mw3))
           | (None, mw2) \<Rightarrow> write_files ffs mw2))"

text \<open>
  \<open>MultipartForm\<close> takes the boundary that \<^verbatim>\<open>multipart.NewWriter\<close> draws at random as
  \<open>randomBoundary\<close>. What the writer has written is the body of the request.
\<close>

definition MultipartForm :: "string \<Rightarrow> Args option \<Rightarrow> Agent \<Rightarrow> Agent outcome" where
  "MultipartForm randomBoundary as a =
     (let mw = NewWriter randomBoundary (req_body (req a))
      in case (if boundary a \<noteq> [] then SetBoundary (boundary a) mw else (None, mw)) of
           (Some err, mw1) \<Rightarrow>
             Return (a\<lparr>errs := errs a @ [err]\<rparr>)
         | (None, mw1) \<Rightarrow>
             (let a1 = header_call (H_SetMultipartFormBoundary (w_boundary mw1)) a
              in case (case as of None \<Rightarrow> ([], mw1) | Some kv \<Rightarrow> write_fields kv mw1) of
                   (es1, mw2) \<Rightarrow>
                     (case write_files (formFiles a1) mw2 of
                        (es2, mw3) \<Rightarrow>
                          (case Writer_Close mw3 of
                             (e3, mw4) \<Rightarrow>
                               Return (a1\<lparr>errs := errs a1 @ es1 @ es2
                                                  @ (case e3 of None \<Rightarrow> [] | Some err \<Rightarrow> [err]),
                                          req := (req a1)\<lparr>req_body := w_sink mw4\<rparr>\<rparr>)))))"

subsection \<open>Agent settings\<close>

definition Debug :: "writer option list \<Rightarrow> Agent \<Rightarrow> Agent outcome" where
  "Debug ws a = Return (a\<lparr>debugWriter := (case ws of [] \<Rightarrow> Some Stdout | x # _ \<Rightarrow> x)\<rparr>)"

definition Timeout :: "int \<Rightarrow> Agent \<Rightarrow> Agent outcome" where
  "Timeout t a = Return (a\<lparr>timeout := t\<rparr>)"

definition Reuse :: "Agent \<Rightarrow> Agent outcome" where
  "Reuse a = Return (a\<lparr>reuse := True\<rparr>)"

definition InsecureSkipVerify :: "Agent \<Rightarrow> Agent outcome" where
  "InsecureSkipVerify a =
     (case HostClient a of
        None \<Rightarrow> Panic
      | Some hc \<Rightarrow>
          (case hc_TLSConfig hc of
             None \<Rightarrow>
               Return (a\<lparr>HostClient := Some (hc\<lparr>hc_TLSConfig :=
                          Some \<lparr>InsecureSkipVerify_flag = True, tls_settings = 0\<rparr>\<rparr>)\<rparr>)
           | Some config \<Rightarrow>
               Return (a\<lparr>HostClient := Some (hc\<lparr>hc_TLSConfig :=
                          Some (config\<lparr>InsecureSkipVerify_flag := True\<rparr>)\<rparr>)\<rparr>)))"

definition TLSConfig :: "tls_Config option \<Rightarrow> Agent \<Rightarrow> Agent outcome" where
  "TLSConfig config a =
     (case HostClient a of
        None \<Rightarrow> Panic
      | Some hc \<Rightarrow> Return (a\<lparr>HostClient := Some (hc\<lparr>hc_TLSConfig := config\<rparr>)\<rparr>))"

definition MaxRedirectsCount :: "int \<Rightarrow> Agent \<Rightarrow> Agent outcome" where
  "MaxRedirectsCount count a = Return (a\<lparr>maxRedirectsCount := count\<rparr>)"

subsection \<open>Execution\<close>

text \<open>
  The transport is the \<^verbatim>\<open>HostClient\<close> of fasthttp, which is handed the request and the
  response object. A transport is a function of the client's settings, the invocations
  made before, the invocation (which holds the request as it is handed over), and the
  response object. It returns the error (\<open>None\<close> for \<^verbatim>\<open>nil\<close>), the response, and the
  URI and the header of the request as the send leaves them: fasthttp writes the host and
  the user agent into the header, and a followed redirect sets the URI. The method and
  the body of the request stay as they are. A method of a \<^verbatim>\<open>nil\<close> client panics.
\<close>

record sent =
  sent_err :: "error option"
  sent_uri :: "URI option"
  sent_header :: "header_op list"
  sent_resp :: Response

type_synonym transport = "HostClient_t \<Rightarrow> call list \<Rightarrow> call \<Rightarrow> Response \<Rightarrow> sent"

fun call_request :: "call \<Rightarrow> Request" where
  "call_request (DoTimeout r t) = r"
| "call_request (DoRedirects r n) = r"
| "call_request (Do r) = r"

definition invoke ::
  "transport \<Rightarrow> Agent \<Rightarrow> call \<Rightarrow> Response \<times> world \<Rightarrow>
     error option outcome \<times> Request \<times> Response \<times> world" where
  "invoke T a c s =
     (case s of
        (resp, w) \<Rightarrow>
          (case HostClient a of
             None \<Rightarrow> (Panic, call_request c, resp, w)
           | Some hc \<Rightarrow>
               (let x = T hc (trace w) c resp
                in (Return (sent_err x),
                    (call_request c)\<lparr>req_uri := sent_uri x, req_header := sent_header x\<rparr>,
                    sent_resp x,
                    w\<lparr>trace := trace w @ [c]\<rparr>))))"

text \<open>
  The three statements that end \<open>Bytes\<close>, last first. Each returns the errors appended
  to \<open>errs\<close> (or \<open>Panic\<close>), the request, the response and the world. A send that returns
  no error is followed by the next statement, on the request as that send has left it.
\<close>

definition Bytes_Do ::
  "transport \<Rightarrow> Agent \<Rightarrow> Request \<Rightarrow> Response \<times> world \<Rightarrow>
     error list outcome \<times> Request \<times> Response \<times> world" where
  "Bytes_Do T a r s =
     (case invoke T a (Do r) s of
        (Panic, r1, s1) \<Rightarrow> (Panic, r1, s1)
      | (Return (Some err), r1, s1) \<Rightarrow> (Return [err], r1, s1)
      | (Return None, r1, s1) \<Rightarrow> (Return [], r1, s1))"

definition Bytes_DoRedirects ::
  "transport \<Rightarrow> Agent \<Rightarrow> Request \<Rightarrow> Response \<times> world \<Rightarrow>
     error list outcome \<times> Request \<times> Response \<times> world" where
  "Bytes_DoRedirects T a r s =
     (if maxRedirectsCount a > 0 \<and> (req_method r = MethodGet \<or> req_method r = MethodHead) then
        (case invoke T a (DoRedirects r (maxRedirectsCount a)) s of
           (Panic, r1, s1) \<Rightarrow> (Panic, r1, s1)
         | (Return (Some err), r1, s1) \<Rightarrow> (Return [err], r1, s1)
         | (Return None, r1, s1) \<Rightarrow> Bytes_Do T a r1 s1)
      else Bytes_Do T a r s)"

definition Bytes_DoTimeout ::
  "transport \<Rightarrow> Agent \<Rightarrow> Request \<Rightarrow> Response \<times> world \<Rightarrow>
     error list outcome \<times> Request \<times> Response \<times> world" where
  "Bytes_DoTimeout T a r s =
     (if timeout a > 0 then
        (case invoke T a (DoTimeout r (timeout a)) s of
           (Panic, r1, s1) \<Rightarrow> (Panic, r1, s1)
         | (Return (Some err), r1, s1) \<Rightarrow> (Return [err], r1, s1)
         | (Return None, r1, s1) \<Rightarrow> Bytes_DoRedirects T a r1 s1)
      else Bytes_DoRedirects T a r s)"

text \<open>
  The request in use is the object that the Agent holds, its own or the custom one: what
  a send writes to it is written to the Agent.
\<close>

definition store_request :: "Agent \<Rightarrow> Request \<Rightarrow> Agent" where
  "store_request a r =
     (case customReq a of None \<Rightarrow> a\<lparr>req := r\<rparr> | Some _ \<Rightarrow> a\<lparr>customReq := Some r\<rparr>)"

text \<open>
  An execution call gives its results (\<open>Panic\<close> when it panics), the Agent, the request
  in use and the caller's response object as the call leaves them, and the world. The
  deferred functions run on every way out, the closure first and \<open>release\<close> last.
\<close>

record 'r exec =
  result :: "(int \<times> 'r \<times> error list) outcome"
  agent_after :: Agent
  request_after :: Request
  resp_after :: "Response option"
  world_after :: world

text \<open>
  The response object \<open>Bytes\<close> writes into: the caller's, or one acquired from the pool,
  which is to be released.
\<close>

definition Bytes_resp :: "Response list \<Rightarrow> world \<Rightarrow> Response \<times> bool \<times> world" where
  "Bytes_resp customResp w =
     (case customResp of
        x # _ \<Rightarrow> (x, False, w)
      | [] \<Rightarrow> (case AcquireResponse w of (x, w0) \<Rightarrow> (x, True, w0)))"

definition Bytes :: "transport \<Rightarrow> Response list \<Rightarrow> Agent \<Rightarrow> world \<Rightarrow> string exec" where
  "Bytes T customResp a w =
     (if errs a \<noteq> [] then
        (case release a w of
           (a1, w1) \<Rightarrow>
             \<lparr>result = Return (0, [], errs a), agent_after = a1,
              request_after = request_of a,
              resp_after = (case customResp of [] \<Rightarrow> None | x # _ \<Rightarrow> Some x),
              world_after = w1\<rparr>)
      else
        let r = request_of a
        in case Bytes_resp customResp w of
             (resp, releaseResp, w1) \<Rightarrow>
               (case Bytes_DoTimeout T a r (resp, w1) of
                  (out, r2, resp2, w2) \<Rightarrow>
                    let es = (case out of Panic \<Rightarrow> [] | Return l \<Rightarrow> l);
                        w3 = (case debugWriter a of
                                None \<Rightarrow> w2
                              | Some dw \<Rightarrow> w2\<lparr>debugOut := debugOut w2 @ [(dw, r2, resp2)]\<rparr>);
                        code = (if es = [] then StatusCode resp2 else 0);
                        body = Body resp2;
                        w4 = (if releaseResp then ReleaseResponse resp2 w3 else w3)
                    in case release (store_request a r2) w4 of
                         (a1, w5) \<Rightarrow>
                           \<lparr>result = (case out of
                                        Panic \<Rightarrow> Panic
                                      | Return _ \<Rightarrow> Return (code, body, es)),
                            agent_after = a1,
                            request_after = r2,
                            resp_after = (if releaseResp then None else Some resp2),
                            world_after = w5\<rparr>))"

text \<open>\<open>getString\<close> reads the bytes as a string: the same list.\<close>

definition getString :: "string \<Rightarrow> string" where
  "getString b = b"

definition String :: "transport \<Rightarrow> Response list \<Rightarrow> Agent \<Rightarrow> world \<Rightarrow> string exec" where
  "String T resp a w =
     (let x = Bytes T resp a w
      in case result x of
           Panic \<Rightarrow> x
         | Return (code, body, es) \<Rightarrow> x\<lparr>result := Return (code, getString body, es)\<rparr>)"

text \<open>
  \<open>Struct\<close> takes the decoder \<^verbatim>\<open>json.Unmarshal(body, v)\<close> for its target \<^verbatim>\<open>v\<close> as
  \<open>unmarshal\<close>: the error it returns on the bytes, \<open>None\<close> for \<^verbatim>\<open>nil\<close>.
\<close>

definition Struct ::
  "transport \<Rightarrow> (string \<Rightarrow> error option) \<Rightarrow> Response list \<Rightarrow> Agent \<Rightarrow> world \<Rightarrow> string exec" where
  "Struct T unmarshal resp a w =
     (let x = Bytes T resp a w
      in case result x of
           Panic \<Rightarrow> x
         | Return (code, body, es) \<Rightarrow>
             (case unmarshal body of
                Some err \<Rightarrow> x\<lparr>result := Return (code, body, es @ [err])\<rparr>
              | None \<Rightarrow> x))"

subsection \<open>Observations and example inputs\<close>

text \<open>The transport invocations an execution call has made, given the world it started in.\<close>

definition sends :: "'r exec \<Rightarrow> world \<Rightarrow> call list" where
  "sends x w = drop (length (trace w)) (trace (world_after x))"

text \<open>
  From the world \<open>w\<close> to the world \<open>w1\<close>, transport invocations were added to the trace, all
  of them in \<open>S\<close>, and nothing else has changed.
\<close>

definition only_sent :: "call set \<Rightarrow> world \<Rightarrow> world \<Rightarrow> bool" where
  "only_sent S w w1 =
     (w1 = w\<lparr>trace := trace w1\<rparr> \<and> take (length (trace w)) (trace w1) = trace w \<and>
      set (drop (length (trace w)) (trace w1)) \<subseteq> S)"

text \<open>The request \<open>r1\<close> is the request \<open>r\<close> but for its URI and its header.\<close>

definition rewritten :: "Request \<Rightarrow> Request \<Rightarrow> bool" where
  "rewritten r r1 = (r1 = r\<lparr>req_uri := req_uri r1, req_header := req_header r1\<rparr>)"

fun is_DoRedirects :: "call \<Rightarrow> bool" where
  "is_DoRedirects (DoRedirects _ _) = True"
| "is_DoRedirects _ = False"

text \<open>Every object in the Agent pool and in the file pool is an empty one.\<close>

definition clean_pools :: "world \<Rightarrow> bool" where
  "clean_pools w =
     (list_all (\<lambda>x. x = zero_Agent) (agentPool w) \<and>
      list_all (\<lambda>x. x = zero_FormFile) (formFilePool w))"

definition empty_world :: world where
  "empty_world =
     \<lparr>agentPool = [], formFilePool = [], responsePool = [], trace = [], debugOut = []\<rparr>"

text \<open>
  An Agent as \<open>createAgent\<close> has it before it calls \<open>Parse\<close>: a new Agent with the method
  and the URI set; and the same Agent after \<open>Parse\<close>.
\<close>

definition new_agent :: "string \<Rightarrow> string \<Rightarrow> string \<Rightarrow> Agent" where
  "new_agent m sch h =
     zero_Agent\<lparr>req := zero_Request\<lparr>req_method := m,
       req_uri := Some \<lparr>uri_scheme = sch, uri_host = h, uri_queryString = [],
                        uri_username = [], uri_password = []\<rparr>\<rparr>\<rparr>"

definition parsed_agent :: "string \<Rightarrow> string \<Rightarrow> string \<Rightarrow> Agent" where
  "parsed_agent m sch h = snd (Parse (new_agent m sch h))"

text \<open>
  \<open>createAgent\<close> takes, in place of the url, the URI that fasthttp reads from it. An
  error of \<open>Parse\<close> goes to the error list, and the Agent is returned.
\<close>

record Client =
  c_UserAgent :: string
  c_NoDefaultUserAgentHeader :: bool

definition createAgent :: "Client \<Rightarrow> string \<Rightarrow> URI \<Rightarrow> world \<Rightarrow> Agent \<times> world" where
  "createAgent c m u w =
     (case AcquireAgent w of
        (a, w1) \<Rightarrow>
          let a1 = a\<lparr>req := (req a)\<lparr>req_method := m, req_uri := Some u\<rparr>\<rparr>;
              a2 = a1\<lparr>Name := c_UserAgent c,
                      NoDefaultUserAgentHeader := c_NoDefaultUserAgentHeader c\<rparr>
          in case Parse a2 of
               (Some err, a3) \<Rightarrow> (a3\<lparr>errs := errs a3 @ [err]\<rparr>, w1)
             | (None, a3) \<Rightarrow> (a3, w1))"

definition defaultClient :: Client where
  "defaultClient = \<lparr>c_UserAgent = [], c_NoDefaultUserAgentHeader = False\<rparr>"

definition Get :: "URI \<Rightarrow> world \<Rightarrow> Agent \<times> world" where
  "Get u w = createAgent defaultClient MethodGet u w"

definition Post :: "URI \<Rightarrow> world \<Rightarrow> Agent \<times> world" where
  "Post u w = createAgent defaultClient MethodPost u w"

text \<open>The URI of \<^verbatim>\<open>ftp://example.com\<close>.\<close>

definition ftp_example :: URI where
  "ftp_example =
     \<lparr>uri_scheme = ''ftp'', uri_host = ''example.com'', uri_queryString = [],
      uri_username = [], uri_password = []\<rparr>"

text \<open>\<^verbatim>\<open>time.Second\<close>, in nanoseconds.\<close>

definition Second :: int where
  "Second = 1000000000"

text \<open>
  A transport whose every send succeeds with the given status and an empty body, and
  leaves the request as it is.
\<close>

definition answering :: "int \<Rightarrow> transport" where
  "answering status hc earlier c resp =
     \<lparr>sent_err = None, sent_uri = req_uri (call_request c),
      sent_header = req_header (call_request c),
      sent_resp = resp\<lparr>StatusCode := status, Body := []\<rparr>\<rparr>"


text \<open>A decoder that, as a JSON decoder does, rejects the empty input.\<close>

definition unmarshal_nonempty :: "string \<Rightarrow> error option" where
  "unmarshal_nonempty b = (if b = [] then Some (Err ''unexpected end of JSON input'') else None)"

text \<open>A file system where every file reads as empty, and paths are already clean.\<close>

definition empty_files :: files where
  "empty_files = \<lparr>ReadFile = (\<lambda>p. Inr []), Clean = (\<lambda>p. p), Base = (\<lambda>p. p)\<rparr>"

section \<open>Properties\<close>

subsection \<open>Auxiliary facts\<close>

lemma only_sent_iff: "only_sent S w w1 \<longleftrightarrow> (\<exists>l. w1 = w\<lparr>trace := trace w @ l\<rparr> \<and> set l \<subseteq> S)"
proof
  assume h: "only_sent S w w1"
  let ?l = "drop (length (trace w)) (trace w1)"
  have "trace w1 = trace w @ ?l"
    using h by (metis only_sent_def append_take_drop_id)
  then have "w1 = w\<lparr>trace := trace w @ ?l\<rparr>" using h by (simp add: only_sent_def)
  moreover have "set ?l \<subseteq> S" using h by (simp add: only_sent_def)
  ultimately show "\<exists>l. w1 = w\<lparr>trace := trace w @ l\<rparr> \<and> set l \<subseteq> S" by blast
next
  assume "\<exists>l. w1 = w\<lparr>trace := trace w @ l\<rparr> \<and> set l \<subseteq> S"
  then obtain l where "w1 = w\<lparr>trace := trace w @ l\<rparr>" "set l \<subseteq> S" by blast
  then show "only_sent S w w1" by (simp add: only_sent_def)
qed

lemma only_sent_refl: "only_sent S w w"
  by (simp add: only_sent_def)

lemma only_sent_call: "c \<in> S \<Longrightarrow> only_sent S w (w\<lparr>trace := trace w @ [c]\<rparr>)"
  by (simp add: only_sent_def)

lemma only_sent_trans:
  assumes "only_sent S w w1" and "only_sent S w1 w2"
  shows "only_sent S w w2"
proof -
  obtain l1 where l1: "w1 = w\<lparr>trace := trace w @ l1\<rparr>" "set l1 \<subseteq> S"
    using assms(1) only_sent_iff by blast
  obtain l2 where l2: "w2 = w1\<lparr>trace := trace w1 @ l2\<rparr>" "set l2 \<subseteq> S"
    using assms(2) only_sent_iff by blast
  have "w2 = w\<lparr>trace := trace w @ (l1 @ l2)\<rparr>" using l1 l2 by simp
  moreover have "set (l1 @ l2) \<subseteq> S" using l1 l2 by simp
  ultimately show ?thesis using only_sent_iff by blast
qed

lemma rewritten_refl: "rewritten r r"
  by (simp add: rewritten_def)

lemma rewritten_trans: "rewritten r r1 \<Longrightarrow> rewritten r1 r2 \<Longrightarrow> rewritten r r2"
  by (cases r; cases r1; cases r2) (simp add: rewritten_def)

lemma rewritten_method: "rewritten r r1 \<Longrightarrow> req_method r1 = req_method r"
  by (cases r; cases r1) (simp add: rewritten_def)

lemma invoke_sent:
  "c \<in> S \<Longrightarrow> only_sent S (snd s) (snd (snd (snd (invoke T a c s)))) \<and>
     rewritten (call_request c) (fst (snd (invoke T a c s)))"
  by (cases s; cases "HostClient a")
     (simp_all add: invoke_def only_sent_refl only_sent_call rewritten_def Let_def)

lemma Bytes_Do_sent:
  assumes D: "\<And>r1. rewritten r0 r1 \<Longrightarrow> Do r1 \<in> S" and r: "rewritten r0 r"
  shows "only_sent S (snd s) (snd (snd (snd (Bytes_Do T a r s)))) \<and>
         rewritten r0 (fst (snd (Bytes_Do T a r s)))"
proof -
  have "snd (Bytes_Do T a r s) = snd (invoke T a (Do r) s)"
    by (simp add: Bytes_Do_def split: prod.splits outcome.splits option.splits)
  then show ?thesis
    using invoke_sent [of "Do r" S s T a] D [OF r] r rewritten_trans by auto
qed

lemma Bytes_DoRedirects_sent:
  assumes D: "\<And>r1. rewritten r0 r1 \<Longrightarrow> Do r1 \<in> S"
    and R: "\<And>r1. req_method r0 = MethodGet \<or> req_method r0 = MethodHead \<Longrightarrow>
                 rewritten r0 r1 \<Longrightarrow> DoRedirects r1 (maxRedirectsCount a) \<in> S"
    and r: "rewritten r0 r"
  shows "only_sent S (snd s) (snd (snd (snd (Bytes_DoRedirects T a r s)))) \<and>
         rewritten r0 (fst (snd (Bytes_DoRedirects T a r s)))"
proof (cases "maxRedirectsCount a > 0 \<and> (req_method r = MethodGet \<or> req_method r = MethodHead)")
  case False
  then have "Bytes_DoRedirects T a r s = Bytes_Do T a r s"
    by (auto simp add: Bytes_DoRedirects_def)
  then show ?thesis using Bytes_Do_sent [OF D r] by simp
next
  case True
  let ?c = "DoRedirects r (maxRedirectsCount a)"
  obtain out r1 s1 where inv: "invoke T a ?c s = (out, r1, s1)"
    using prod_cases3 by blast
  have "req_method r0 = MethodGet \<or> req_method r0 = MethodHead"
    using True rewritten_method [OF r] by simp
  then have "?c \<in> S" using R r by blast
  then have first: "only_sent S (snd s) (snd s1)" and r1: "rewritten r0 r1"
    using invoke_sent [of ?c S s T a] inv r rewritten_trans by auto
  show ?thesis
  proof (cases "out = Return None")
    case False
    then have "snd (Bytes_DoRedirects T a r s) = (r1, s1)"
      using True inv by (simp add: Bytes_DoRedirects_def split: outcome.splits option.splits)
    then show ?thesis using first r1 by simp
  next
    case rn: True
    then have "Bytes_DoRedirects T a r s = Bytes_Do T a r1 s1"
      using True inv by (simp add: Bytes_DoRedirects_def)
    then show ?thesis
      using only_sent_trans [OF first] Bytes_Do_sent [OF D r1, where s = s1 and T = T and a = a]
      by simp
  qed
qed

lemma Bytes_DoTimeout_sent:
  assumes D: "\<And>r1. rewritten r0 r1 \<Longrightarrow> Do r1 \<in> S"
    and R: "\<And>r1. req_method r0 = MethodGet \<or> req_method r0 = MethodHead \<Longrightarrow>
                 rewritten r0 r1 \<Longrightarrow> DoRedirects r1 (maxRedirectsCount a) \<in> S"
    and M: "\<And>r1. rewritten r0 r1 \<Longrightarrow> DoTimeout r1 (timeout a) \<in> S"
    and r: "rewritten r0 r"
  shows "only_sent S (snd s) (snd (snd (snd (Bytes_DoTimeout T a r s)))) \<and>
         rewritten r0 (fst (snd (Bytes_DoTimeout T a r s)))"
proof (cases "timeout a > 0")
  case False
  then have "Bytes_DoTimeout T a r s = Bytes_DoRedirects T a r s"
    by (auto simp add: Bytes_DoTimeout_def)
  then show ?thesis using Bytes_DoRedirects_sent [OF D R r] by simp
next
  case True
  let ?c = "DoTimeout r (timeout a)"
  obtain out r1 s1 where inv: "invoke T a ?c s = (out, r1, s1)"
    using prod_cases3 by blast
  have "?c \<in> S" using M r by blast
  then have first: "only_sent S (snd s) (snd s1)" and r1: "rewritten r0 r1"
    using invoke_sent [of ?c S s T a] inv r rewritten_trans by auto
  show ?thesis
  proof (cases "out = Return None")
    case False
    then have "snd (Bytes_DoTimeout T a r s) = (r1, s1)"
      using True inv by (simp add: Bytes_DoTimeout_def split: outcome.splits option.splits)
    then show ?thesis using first r1 by simp
  next
    case rn: True
    then have "Bytes_DoTimeout T a r s = Bytes_DoRedirects T a r1 s1"
      using True inv by (simp add: Bytes_DoTimeout_def)
    then show ?thesis
      using only_sent_trans [OF first] Bytes_DoRedirects_sent [OF D R r1, where s = s1 and T = T]
      by simp
  qed
qed

lemma reset_formFiles_frame:
  "trace (reset_formFiles ffs w) = trace w \<and> agentPool (reset_formFiles ffs w) = agentPool w"
  by (induction ffs arbitrary: w) (simp_all add: ReleaseFormFile_def Let_def)

lemma release_trace: "trace (snd (release a w)) = trace w"
  by (simp add: release_def ReleaseAgent_def reset_def reset_formFiles_frame)


lemma Bytes_failfast:
  assumes "errs a \<noteq> []"
  shows "Bytes T rs a w =
           \<lparr>result = Return (0, [], errs a), agent_after = fst (release a w),
            request_after = request_of a,
            resp_after = (case rs of [] \<Rightarrow> None | x # _ \<Rightarrow> Some x),
            world_after = snd (release a w)\<rparr>"
  using assms by (simp add: Bytes_def split: prod.splits)

lemma Bytes_resp_frame:
  "trace (snd (snd (Bytes_resp rs w))) = trace w \<and>
   agentPool (snd (snd (Bytes_resp rs w))) = agentPool w"
  by (simp add: Bytes_resp_def AcquireResponse_def split: list.splits)

lemma Bytes_sending:
  assumes e: "errs a = []"
    and D: "\<And>r1. rewritten (request_of a) r1 \<Longrightarrow> Do r1 \<in> S"
    and R: "\<And>r1. req_method (request_of a) = MethodGet \<or> req_method (request_of a) = MethodHead \<Longrightarrow>
                 rewritten (request_of a) r1 \<Longrightarrow> DoRedirects r1 (maxRedirectsCount a) \<in> S"
    and M: "\<And>r1. rewritten (request_of a) r1 \<Longrightarrow> DoTimeout r1 (timeout a) \<in> S"
  shows "\<exists>w2 w3. only_sent S (snd (snd (Bytes_resp rs w))) w2 \<and>
          trace w3 = trace w2 \<and> agentPool w3 = agentPool w2 \<and>
          rewritten (request_of a) (request_after (Bytes T rs a w)) \<and>
          agent_after (Bytes T rs a w) =
            fst (release (store_request a (request_after (Bytes T rs a w))) w3) \<and>
          world_after (Bytes T rs a w) =
            snd (release (store_request a (request_after (Bytes T rs a w))) w3)"
proof -
  obtain resp rel w1 where acq: "Bytes_resp rs w = (resp, rel, w1)"
    using prod_cases3 by blast
  obtain out r2 resp2 w2 where
    snt: "Bytes_DoTimeout T a (request_of a) (resp, w1) = (out, r2, resp2, w2)"
    using prod_cases4 by blast
  have "only_sent S (snd (resp, w1))
          (snd (snd (snd (Bytes_DoTimeout T a (request_of a) (resp, w1))))) \<and>
        rewritten (request_of a) (fst (snd (Bytes_DoTimeout T a (request_of a) (resp, w1))))"
  proof (rule Bytes_DoTimeout_sent [where ?r0.0 = "request_of a"])
    show "\<And>r1. rewritten (request_of a) r1 \<Longrightarrow> Do r1 \<in> S" by (rule D)
    show "\<And>r1. req_method (request_of a) = MethodGet \<or> req_method (request_of a) = MethodHead \<Longrightarrow>
                 rewritten (request_of a) r1 \<Longrightarrow> DoRedirects r1 (maxRedirectsCount a) \<in> S"
      by (rule R)
    show "\<And>r1. rewritten (request_of a) r1 \<Longrightarrow> DoTimeout r1 (timeout a) \<in> S" by (rule M)
    show "rewritten (request_of a) (request_of a)" by (rule rewritten_refl)
  qed
  then have s: "only_sent S w1 w2" and r2: "rewritten (request_of a) r2"
    using snt by auto
  let ?w3 = "(case debugWriter a of
               None \<Rightarrow> w2
             | Some dw \<Rightarrow> w2\<lparr>debugOut := debugOut w2 @ [(dw, r2, resp2)]\<rparr>)"
  let ?w4 = "if rel then ReleaseResponse resp2 ?w3 else ?w3"
  have f: "trace ?w4 = trace w2 \<and> agentPool ?w4 = agentPool w2"
    by (simp add: ReleaseResponse_def split: option.splits)
  have b: "request_after (Bytes T rs a w) = r2 \<and>
          agent_after (Bytes T rs a w) = fst (release (store_request a r2) ?w4) \<and>
          world_after (Bytes T rs a w) = snd (release (store_request a r2) ?w4)"
    using e acq snt by (simp add: Bytes_def Let_def split: prod.splits)
  show ?thesis using s r2 f b acq by (metis snd_conv)
qed

lemma String_world:
  "world_after (String T rs a w) = world_after (Bytes T rs a w) \<and>
   agent_after (String T rs a w) = agent_after (Bytes T rs a w) \<and>
   request_after (String T rs a w) = request_after (Bytes T rs a w)"
  by (simp add: String_def Let_def split: outcome.splits prod.splits)

lemma Struct_world:
  "world_after (Struct T u rs a w) = world_after (Bytes T rs a w) \<and>
   agent_after (Struct T u rs a w) = agent_after (Bytes T rs a w) \<and>
   request_after (Struct T u rs a w) = request_after (Bytes T rs a w)"
  by (simp add: Struct_def Let_def split: outcome.splits prod.splits option.splits)

lemma sends_Bytes_no_redirects:
  assumes "req_method (request_of a) \<noteq> MethodGet" and "req_method (request_of a) \<noteq> MethodHead"
  shows "\<not> list_ex is_DoRedirects (sends (Bytes T rs a w) w)"
proof (cases "errs a = []")
  case False
  then show ?thesis by (simp add: sends_def Bytes_failfast release_trace)
next
  case True
  let ?S = "{c. \<not> is_DoRedirects c}"
  have "\<exists>w2 w3. only_sent ?S (snd (snd (Bytes_resp rs w))) w2 \<and>
          trace w3 = trace w2 \<and> agentPool w3 = agentPool w2 \<and>
          rewritten (request_of a) (request_after (Bytes T rs a w)) \<and>
          agent_after (Bytes T rs a w) =
            fst (release (store_request a (request_after (Bytes T rs a w))) w3) \<and>
          world_after (Bytes T rs a w) =
            snd (release (store_request a (request_after (Bytes T rs a w))) w3)"
    by (rule Bytes_sending [OF True]) (use assms in simp_all)
  then obtain w2 w3 where h: "only_sent ?S (snd (snd (Bytes_resp rs w))) w2"
    "trace w3 = trace w2"
    "world_after (Bytes T rs a w) =
       snd (release (store_request a (request_after (Bytes T rs a w))) w3)"
    by blast
  obtain l where l:
    "w2 = (snd (snd (Bytes_resp rs w)))\<lparr>trace := trace (snd (snd (Bytes_resp rs w))) @ l\<rparr>"
    "set l \<subseteq> ?S" using h(1) only_sent_iff by blast
  have "trace w2 = trace w @ l"
    using l(1) Bytes_resp_frame [of rs w]
    by (metis world.select_convs(4) world.surjective world.update_convs(4))
  then have "trace (world_after (Bytes T rs a w)) = trace w @ l"
    using h release_trace by simp
  then have "sends (Bytes T rs a w) w = l" by (simp add: sends_def)
  moreover have "\<forall>c \<in> set l. \<not> is_DoRedirects c" using l(2) by auto
  ultimately show ?thesis by (simp add: list_ex_iff)
qed



lemma Itoa_2: "Itoa 2 = ''2''"
  by code_simp

lemmas example_defs =
  parsed_agent_def new_agent_def zero_Agent_def zero_Request_def zero_Response_def zero_URI_def
  empty_world_def answering_def request_of_def Parse_def bind_def strHTTP_def strHTTPS_def
  MethodGet_def MethodHead_def MethodPost_def defaultUserAgent_def Second_def

lemmas Bytes_defs =
  Bytes_def Bytes_resp_def Bytes_DoTimeout_def Bytes_DoRedirects_def Bytes_Do_def invoke_def
  AcquireResponse_def ReleaseResponse_def Response_Reset_def release_def ReleaseAgent_def
  reset_def Request_Reset_def sends_def store_request_def

lemma reset_formFiles_pool:
  "formFilePool (reset_formFiles ffs w) =
     replicate (length (filter autoRelease ffs)) zero_FormFile @ formFilePool w"
proof (induction ffs arbitrary: w)
  case Nil
  then show ?case by simp
next
  case (Cons ff ffs)
  show ?case
  proof (cases "autoRelease ff")
    case True
    have "formFilePool (snd (ReleaseFormFile ff w)) = zero_FormFile # formFilePool w"
      by (simp add: ReleaseFormFile_def zero_FormFile_def Let_def)
    then show ?thesis using True Cons.IH [of "snd (ReleaseFormFile ff w)"]
      by (simp add: replicate_app_Cons_same)
  next
    case False
    then show ?thesis using Cons.IH [of w] by simp
  qed
qed

lemma reset_zero: "fst (reset a w) = zero_Agent"
  by (simp add: reset_def zero_Agent_def Request_Reset_def)

lemma ReleaseFormFile_zero: "fst (ReleaseFormFile ff w) = zero_FormFile"
  by (simp add: ReleaseFormFile_def zero_FormFile_def Let_def)

lemma ReleaseAgent_eq:
  "ReleaseAgent a w =
     (zero_Agent, (reset_formFiles (formFiles a) w)
                    \<lparr>agentPool := zero_Agent # agentPool w\<rparr>)"
  using reset_zero [of a w]
  by (simp add: ReleaseAgent_def reset_def reset_formFiles_frame split: prod.splits)

lemma SetBoundary_accepts:
  assumes "b \<noteq> []" and "length b \<le> 70" and "boundary_chars b"
  shows "SetBoundary b (NewWriter rb sink) = (None, (NewWriter rb sink)\<lparr>w_boundary := b\<rparr>)"
  using assms by (cases b) (simp_all add: SetBoundary_def NewWriter_def)

lemma SetBoundary_rejects:
  assumes "b \<noteq> []" and "\<not> (length b \<le> 70 \<and> boundary_chars b)"
  shows "SetBoundary b (NewWriter rb sink) =
           (Some (ErrMime (if length b > 70 then ''mime: invalid boundary length''
                           else ''mime: invalid boundary character'')),
            NewWriter rb sink)"
  using assms by (cases b) (auto simp add: SetBoundary_def NewWriter_def)

subsection \<open>One send for each execution\<close>

text \<open>
  C1. With an empty error list, \<open>Bytes\<close> is to perform exactly one send, and none after a
  timeout-bounded or redirect-following send has succeeded. Evaluated on a transport
  whose every send succeeds: a GET Agent with a timeout of one second and 3 redirects
  allowed makes three sends, \<open>DoTimeout\<close>, then \<open>DoRedirects\<close>, then \<open>Do\<close>; a POST Agent
  with a timeout of one second makes two, \<open>DoTimeout\<close> and then \<open>Do\<close>, which has no
  timeout.
\<close>

theorem C1_sends_after_successful_send:
  "errs ((parsed_agent MethodGet ''http'' ''example.com'')\<lparr>timeout := Second, maxRedirectsCount := 3\<rparr>) = [] \<and>
   sends (Bytes (answering 200) []
            ((parsed_agent MethodGet ''http'' ''example.com'')\<lparr>timeout := Second, maxRedirectsCount := 3\<rparr>)
            empty_world) empty_world
     = [DoTimeout (req (new_agent MethodGet ''http'' ''example.com'')) Second,
        DoRedirects (req (new_agent MethodGet ''http'' ''example.com'')) 3,
        Do (req (new_agent MethodGet ''http'' ''example.com''))] \<and>
   sends (Bytes (answering 200) []
            ((parsed_agent MethodPost ''http'' ''example.com'')\<lparr>timeout := Second\<rparr>)
            empty_world) empty_world
     = [DoTimeout (req (new_agent MethodPost ''http'' ''example.com'')) Second,
        Do (req (new_agent MethodPost ''http'' ''example.com''))]"
  by (simp add: example_defs Bytes_defs Let_def)

subsection \<open>Fail-fast on accumulated errors\<close>

text \<open>
  C2. For every Agent whose error list is not empty, \<open>Bytes\<close> and \<open>String\<close> invoke no
  transport and return status code 0, an empty body and that same error list;
  \<open>Struct\<close> invokes no transport and returns status code 0 and an empty body, and its
  error list is that same list followed by the error of the decoder on the empty body,
  when the decoder reports one.
\<close>

theorem C2_failfast:
  assumes "errs a \<noteq> []"
  shows "result (Bytes T rs a w) = Return (0, [], errs a) \<and> sends (Bytes T rs a w) w = [] \<and>
         result (String T rs a w) = Return (0, [], errs a) \<and> sends (String T rs a w) w = [] \<and>
         result (Struct T u rs a w) =
           Return (0, [], errs a @ (case u [] of None \<Rightarrow> [] | Some err \<Rightarrow> [err])) \<and>
         sends (Struct T u rs a w) w = []"
proof -
  have b: "result (Bytes T rs a w) = Return (0, [], errs a)"
    using assms by (simp add: Bytes_failfast)
  have t: "sends (Bytes T rs a w) w = []"
    using assms by (simp add: sends_def Bytes_failfast release_trace)
  have s: "result (String T rs a w) = Return (0, [], errs a)"
    using b by (simp add: String_def Let_def getString_def)
  have u: "result (Struct T u rs a w) =
           Return (0, [], errs a @ (case u [] of None \<Rightarrow> [] | Some err \<Rightarrow> [err]))"
    using b by (simp add: Struct_def Let_def split: option.splits)
  show ?thesis using b t s u by (simp add: sends_def String_world Struct_world)
qed

text \<open>
  C2, at an Agent whose error list holds one error, with a decoder that rejects the empty
  input: \<open>Struct\<close> returns two errors, not the list as it was.
\<close>

theorem C2_counterexample:
  "errs (zero_Agent\<lparr>errs := [ErrorInvalidURI]\<rparr>) \<noteq> [] \<and>
   result (Struct (answering 200) unmarshal_nonempty [] (zero_Agent\<lparr>errs := [ErrorInvalidURI]\<rparr>)
             empty_world)
     = Return (0, [], [ErrorInvalidURI, Err ''unexpected end of JSON input'']) \<and>
   result (Struct (answering 200) unmarshal_nonempty [] (zero_Agent\<lparr>errs := [ErrorInvalidURI]\<rparr>)
             empty_world)
     \<noteq> Return (0, [], errs (zero_Agent\<lparr>errs := [ErrorInvalidURI]\<rparr>))"
  by (simp add: example_defs Bytes_defs Struct_def unmarshal_nonempty_def Let_def)

text \<open>C2, at an Agent whose error list holds one error.\<close>

theorem C2_witness:
  "result (Bytes (answering 200) [] (zero_Agent\<lparr>errs := [ErrorInvalidURI]\<rparr>) empty_world)
     = Return (0, [], [ErrorInvalidURI]) \<and>
   sends (Bytes (answering 200) [] (zero_Agent\<lparr>errs := [ErrorInvalidURI]\<rparr>) empty_world)
     empty_world = []"
  using C2_failfast [of "zero_Agent\<lparr>errs := [ErrorInvalidURI]\<rparr>" "answering 200" "[]" empty_world]
  by (simp add: zero_Agent_def)

subsection \<open>The setters on an Agent whose Parse has failed\<close>

text \<open>
  C3. Every setter is to return the Agent, on an Agent on which \<open>Parse\<close> has not
  succeeded too. Evaluated on the Agent that \<open>Get\<close> returns for
  \<^verbatim>\<open>ftp://example.com\<close>: \<open>createAgent\<close> has put the error of \<open>Parse\<close> on the error
  list and no host client is bound; \<open>Bytes\<close> returns that error, and \<open>Host\<close> and
  \<open>Timeout\<close> return; \<open>InsecureSkipVerify\<close> and \<open>TLSConfig\<close> dereference the host client
  and panic.
\<close>

theorem C3_TLS_setters_panic_after_failed_Parse:
  "errs (fst (Get ftp_example empty_world)) = [ErrUnsupportedProtocol ''ftp''] \<and>
   HostClient (fst (Get ftp_example empty_world)) = None \<and>
   result (Bytes (answering 200) [] (fst (Get ftp_example empty_world)) empty_world)
     = Return (0, [], [ErrUnsupportedProtocol ''ftp'']) \<and>
   Host ''example.org'' (fst (Get ftp_example empty_world)) \<noteq> Panic \<and>
   Timeout Second (fst (Get ftp_example empty_world)) \<noteq> Panic \<and>
   InsecureSkipVerify (fst (Get ftp_example empty_world)) = Panic \<and>
   TLSConfig None (fst (Get ftp_example empty_world)) = Panic"
proof -
  have g: "fst (Get ftp_example empty_world) =
             (new_agent MethodGet ''ftp'' ''example.com'')
               \<lparr>parsed := True, errs := [ErrUnsupportedProtocol ''ftp'']\<rparr>"
    by (simp add: Get_def createAgent_def AcquireAgent_def defaultClient_def ftp_example_def
          example_defs Let_def)
  show ?thesis
    unfolding g
    by (simp add: Bytes_defs InsecureSkipVerify_def TLSConfig_def Host_def uri_call_def
          Timeout_def example_defs Let_def)
qed

subsection \<open>Parse on a missing URI or another scheme\<close>

text \<open>
  C4. For every Agent not yet parsed, the first call to \<open>Parse\<close> on a \<^verbatim>\<open>nil\<close> URI
  returns \<open>ErrorInvalidURI\<close>; on a URI whose scheme is neither \<^verbatim>\<open>http\<close> nor
  \<^verbatim>\<open>https\<close> it returns the unsupported-protocol error that carries the scheme. In both
  cases only the flag \<open>parsed\<close> changes, so that the host client stays as it was.
\<close>

theorem C4_Parse_rejects:
  assumes "\<not> parsed a"
  shows "(req_uri (request_of a) = None \<longrightarrow>
            Parse a = (Some ErrorInvalidURI, a\<lparr>parsed := True\<rparr>)) \<and>
         (\<forall>u. req_uri (request_of a) = Some u \<and>
               uri_scheme u \<noteq> ''http'' \<and> uri_scheme u \<noteq> ''https'' \<longrightarrow>
            Parse a = (Some (ErrUnsupportedProtocol (uri_scheme u)), a\<lparr>parsed := True\<rparr>)) \<and>
         (fst (Parse a) \<noteq> None \<longrightarrow> HostClient (snd (Parse a)) = HostClient a)"
  using assms
  by (auto simp: Parse_def bind_def Let_def request_of_def strHTTP_def strHTTPS_def
        split: option.splits)

text \<open>
  C4, at a new Agent for an \<^verbatim>\<open>ftp\<close> URI: the error that \<open>Parse\<close> returns is not
  \<open>ErrorInvalidURI\<close>.
\<close>

theorem C4_counterexample:
  "\<not> parsed (new_agent MethodGet ''ftp'' ''example.com'') \<and>
   fst (Parse (new_agent MethodGet ''ftp'' ''example.com'')) \<noteq> Some ErrorInvalidURI"
  by (simp add: Parse_def new_agent_def zero_Agent_def zero_Request_def
          request_of_def strHTTP_def strHTTPS_def Let_def)

text \<open>
  C4, at an Agent with a custom request for which \<^verbatim>\<open>URI()\<close> is \<^verbatim>\<open>nil\<close>, and at a new
  Agent for an \<^verbatim>\<open>ftp\<close> URI.
\<close>

theorem C4_witness:
  "Parse (zero_Agent\<lparr>customReq := Some (zero_Request\<lparr>req_uri := None\<rparr>)\<rparr>) =
     (Some ErrorInvalidURI,
      zero_Agent\<lparr>customReq := Some (zero_Request\<lparr>req_uri := None\<rparr>), parsed := True\<rparr>) \<and>
   Parse (new_agent MethodGet ''ftp'' ''example.com'') =
     (Some (ErrUnsupportedProtocol ''ftp''), (new_agent MethodGet ''ftp'' ''example.com'')\<lparr>parsed := True\<rparr>)"
proof -
  let ?z = "zero_Agent\<lparr>customReq := Some (zero_Request\<lparr>req_uri := None\<rparr>)\<rparr>"
  have z: "\<not> parsed ?z" "req_uri (request_of ?z) = None"
    by (simp_all add: zero_Agent_def request_of_def zero_Request_def)
  have n: "\<not> parsed (new_agent MethodGet ''ftp'' ''example.com'')"
    "req_uri (request_of (new_agent MethodGet ''ftp'' ''example.com'')) =
       Some \<lparr>uri_scheme = ''ftp'', uri_host = ''example.com'', uri_queryString = [],
                        uri_username = [], uri_password = []\<rparr>"
    by (simp_all add: new_agent_def zero_Agent_def request_of_def zero_Request_def)
  show ?thesis
    using C4_Parse_rejects [OF z(1)] C4_Parse_rejects [OF n(1)] z(2) n(2) by simp
qed

subsection \<open>Redirects for GET and HEAD only\<close>

text \<open>
  C5. For every Agent whose request method is neither GET nor HEAD, for every transport
  and every value of \<open>maxRedirectsCount\<close>, no execution call (\<open>Bytes\<close>, \<open>String\<close>,
  \<open>Struct\<close>) invokes \<open>DoRedirects\<close>.
\<close>

theorem C5_redirects_only_for_GET_and_HEAD:
  assumes "req_method (request_of a) \<noteq> MethodGet" and "req_method (request_of a) \<noteq> MethodHead"
  shows "\<not> list_ex is_DoRedirects (sends (Bytes T rs a w) w) \<and>
         \<not> list_ex is_DoRedirects (sends (String T rs a w) w) \<and>
         \<not> list_ex is_DoRedirects (sends (Struct T u rs a w) w)"
  using sends_Bytes_no_redirects [OF assms, of T rs w]
  by (simp add: sends_def String_world Struct_world)

text \<open>
  C5, at a POST Agent with 3 redirects allowed, on a transport that answers 302: the one
  send is \<open>Do\<close>.
\<close>

theorem C5_witness:
  "sends (Bytes (answering 302) []
            ((parsed_agent MethodPost ''http'' ''example.com'')\<lparr>maxRedirectsCount := 3\<rparr>)
            empty_world) empty_world
     = [Do (req (new_agent MethodPost ''http'' ''example.com''))] \<and>
   \<not> list_ex is_DoRedirects (sends (Bytes (answering 302) []
            ((parsed_agent MethodPost ''http'' ''example.com'')\<lparr>maxRedirectsCount := 3\<rparr>)
            empty_world) empty_world)"
proof -
  let ?a = "(parsed_agent MethodPost ''http'' ''example.com'')\<lparr>maxRedirectsCount := 3\<rparr>"
  have m: "req_method (request_of ?a) \<noteq> MethodGet" "req_method (request_of ?a) \<noteq> MethodHead"
    by (simp_all add: example_defs Let_def)
  have "sends (Bytes (answering 302) [] ?a empty_world) empty_world
     = [Do (req (new_agent MethodPost ''http'' ''example.com''))]"
    by (simp add: example_defs Bytes_defs Let_def)
  then show ?thesis
    using C5_redirects_only_for_GET_and_HEAD [OF m, of "answering 302" "[]" empty_world] by simp
qed

subsection \<open>Multipart form of two fields and one file\<close>

text \<open>
  C6. For every Agent with one attached file whose explicit boundary is empty or one
  the multipart writer accepts (at most 70 bytes, of the accepted characters), and for
  two key/value pairs, \<open>MultipartForm\<close> declares the boundary in the Content-Type header
  and appends to the body exactly three parts and the closing delimiter: a field for
  each pair, in order, then the file part with the field name, file name and content of
  the descriptor, all with the declared boundary, which is the explicit one when it is
  set and the writer's random one otherwise; the error list is unchanged. For every
  Agent whose explicit boundary the writer rejects, and every argument set,
  \<open>MultipartForm\<close> appends the writer's error to the error list and nothing else
  changes: no header is set and nothing is written to the body.
\<close>

theorem C6_MultipartForm_three_parts:
  "(formFiles a = [ff] \<and>
    (boundary a = [] \<or> (length (boundary a) \<le> 70 \<and> boundary_chars (boundary a))) \<longrightarrow>
      (let b = (if boundary a = [] then randomBoundary else boundary a)
       in MultipartForm randomBoundary (Some [(k1, v1), (k2, v2)]) a =
            Return (a\<lparr>req := (req a)
              \<lparr>req_header := req_header (req a) @ [H_SetMultipartFormBoundary b],
               req_body := req_body (req a) @
                 [Part b (FieldPart k1) v1,
                  Part b (FieldPart k2) v2,
                  Part b (FilePart (Fieldname ff) (ff_Name ff)) (Content ff),
                  CloseDelimiter b]\<rparr>\<rparr>))) \<and>
   (boundary a \<noteq> [] \<and> \<not> (length (boundary a) \<le> 70 \<and> boundary_chars (boundary a)) \<longrightarrow>
      MultipartForm randomBoundary as a =
        Return (a\<lparr>errs := errs a @
          [ErrMime (if length (boundary a) > 70 then ''mime: invalid boundary length''
                    else ''mime: invalid boundary character'')]\<rparr>))"
proof -
  have accepted: "(let b = (if boundary a = [] then randomBoundary else boundary a)
       in MultipartForm randomBoundary (Some [(k1, v1), (k2, v2)]) a =
            Return (a\<lparr>req := (req a)
              \<lparr>req_header := req_header (req a) @ [H_SetMultipartFormBoundary b],
               req_body := req_body (req a) @
                 [Part b (FieldPart k1) v1,
                  Part b (FieldPart k2) v2,
                  Part b (FilePart (Fieldname ff) (ff_Name ff)) (Content ff),
                  CloseDelimiter b]\<rparr>\<rparr>))"
    if f: "formFiles a = [ff]"
      and b: "boundary a = [] \<or> (length (boundary a) \<le> 70 \<and> boundary_chars (boundary a))"
  proof (cases "boundary a = []")
    case True
    then show ?thesis using f
      by (simp add: MultipartForm_def NewWriter_def header_call_def WriteField_def
            CreateFormFile_def part_Write_def Writer_Close_def Let_def)
  next
    case False
    then have "SetBoundary (boundary a) (NewWriter randomBoundary (req_body (req a))) =
                 (None, (NewWriter randomBoundary (req_body (req a)))\<lparr>w_boundary := boundary a\<rparr>)"
      using b SetBoundary_accepts by blast
    then show ?thesis using False f
      by (simp add: MultipartForm_def NewWriter_def header_call_def WriteField_def
            CreateFormFile_def part_Write_def Writer_Close_def Let_def)
  qed
  have rejected: "MultipartForm randomBoundary as a =
        Return (a\<lparr>errs := errs a @
          [ErrMime (if length (boundary a) > 70 then ''mime: invalid boundary length''
                    else ''mime: invalid boundary character'')]\<rparr>)"
    if n: "boundary a \<noteq> []"
      and r: "\<not> (length (boundary a) \<le> 70 \<and> boundary_chars (boundary a))"
    using n SetBoundary_rejects [OF n r, of randomBoundary "req_body (req a)"]
    by (simp add: MultipartForm_def Let_def)
  show ?thesis using accepted rejected by blast
qed

text \<open>
  C6, at an Agent whose explicit boundary has 71 bytes: the writer refuses it,
  \<open>MultipartForm\<close> records the error and returns, and the body has no part and the header
  no boundary.
\<close>

theorem C6_counterexample:
  "MultipartForm ''r'' (Some [(''k1'', ''v1''), (''k2'', ''v2'')])
     ((new_agent MethodPost ''http'' ''example.com'')
        \<lparr>boundary := replicate 71 (CHR ''a''),
         formFiles := [\<lparr>Fieldname = ''f'', ff_Name = ''n.txt'', Content = ''data'',
                        autoRelease = False\<rparr>]\<rparr>)
   = Return ((new_agent MethodPost ''http'' ''example.com'')
        \<lparr>boundary := replicate 71 (CHR ''a''),
         formFiles := [\<lparr>Fieldname = ''f'', ff_Name = ''n.txt'', Content = ''data'',
                        autoRelease = False\<rparr>],
         errs := [ErrMime ''mime: invalid boundary length'']\<rparr>) \<and>
   req_body (req (new_agent MethodPost ''http'' ''example.com'')) = [] \<and>
   req_header (req (new_agent MethodPost ''http'' ''example.com'')) = []"
  by (simp add: MultipartForm_def NewWriter_def SetBoundary_def new_agent_def zero_Agent_def
        zero_Request_def Let_def)

text \<open>
  C6, at an Agent with the explicit boundary \<^verbatim>\<open>xyz\<close>, and at one whose explicit
  boundary ends with a space.
\<close>

theorem C6_witness:
  "MultipartForm ''r'' (Some [(''k1'', ''v1''), (''k2'', ''v2'')])
     ((new_agent MethodPost ''http'' ''example.com'')
        \<lparr>boundary := ''xyz'',
         formFiles := [\<lparr>Fieldname = ''f'', ff_Name = ''n.txt'', Content = ''data'',
                        autoRelease = False\<rparr>]\<rparr>)
   = Return ((new_agent MethodPost ''http'' ''example.com'')
        \<lparr>boundary := ''xyz'',
         formFiles := [\<lparr>Fieldname = ''f'', ff_Name = ''n.txt'', Content = ''data'',
                        autoRelease = False\<rparr>],
         req := (req (new_agent MethodPost ''http'' ''example.com''))
           \<lparr>req_header := [H_SetMultipartFormBoundary ''xyz''],
            req_body := [Part ''xyz'' (FieldPart ''k1'') ''v1'',
                         Part ''xyz'' (FieldPart ''k2'') ''v2'',
                         Part ''xyz'' (FilePart ''f'' ''n.txt'') ''data'',
                         CloseDelimiter ''xyz'']\<rparr>\<rparr>) \<and>
   MultipartForm ''r'' None ((new_agent MethodPost ''http'' ''example.com'')\<lparr>boundary := ''x y ''\<rparr>)
   = Return ((new_agent MethodPost ''http'' ''example.com'')
        \<lparr>boundary := ''x y '', errs := [ErrMime ''mime: invalid boundary character'']\<rparr>)"
proof -
  let ?ff = "\<lparr>Fieldname = ''f'', ff_Name = ''n.txt'', Content = ''data'', autoRelease = False\<rparr>"
  let ?a = "(new_agent MethodPost ''http'' ''example.com'')\<lparr>boundary := ''xyz'', formFiles := [?ff]\<rparr>"
  let ?b = "(new_agent MethodPost ''http'' ''example.com'')\<lparr>boundary := ''x y ''\<rparr>"
  have a: "formFiles ?a = [?ff] \<and>
           (boundary ?a = [] \<or> (length (boundary ?a) \<le> 70 \<and> boundary_chars (boundary ?a)))"
    by (simp add: boundary_char_def)
  have b: "boundary ?b \<noteq> [] \<and> \<not> (length (boundary ?b) \<le> 70 \<and> boundary_chars (boundary ?b))"
    by (simp add: boundary_char_def)
  have e: "errs ?b = []" by (simp add: new_agent_def zero_Agent_def)
  have 1: "MultipartForm ''r'' (Some [(''k1'', ''v1''), (''k2'', ''v2'')]) ?a =
            Return (?a\<lparr>req := (req ?a)
              \<lparr>req_header := req_header (req ?a) @ [H_SetMultipartFormBoundary ''xyz''],
               req_body := req_body (req ?a) @
                 [Part ''xyz'' (FieldPart ''k1'') ''v1'',
                  Part ''xyz'' (FieldPart ''k2'') ''v2'',
                  Part ''xyz'' (FilePart ''f'' ''n.txt'') ''data'',
                  CloseDelimiter ''xyz'']\<rparr>\<rparr>)"
    using a C6_MultipartForm_three_parts
            [where a = ?a and ff = ?ff and randomBoundary = "''r''" and ?k1.0 = "''k1''"
               and ?v1.0 = "''v1''" and ?k2.0 = "''k2''" and ?v2.0 = "''v2''"]
    by (simp add: Let_def)
  have 2: "MultipartForm ''r'' None ?b =
             Return (?b\<lparr>errs := errs ?b @ [ErrMime ''mime: invalid boundary character'']\<rparr>)"
    using b C6_MultipartForm_three_parts [where a = ?b and randomBoundary = "''r''" and as = None]
    by simp
  show ?thesis using 1 2 e
    by (simp add: new_agent_def zero_Agent_def zero_Request_def)
qed

subsection \<open>An odd list of files and field names\<close>

text \<open>
  C7. For every Agent with no attached file, when the two files can be read,
  \<open>SendFiles\<close> on \<^verbatim>\<open>["a.txt", "f1", "b.txt"]\<close> attaches exactly two descriptors, owned
  by the Agent: the first with field name \<^verbatim>\<open>f1\<close>, the second, whose explicit field
  name is the empty padding, with the positional name \<^verbatim>\<open>file2\<close>. No error is recorded.
\<close>

theorem C7_SendFiles_odd:
  assumes "formFiles a = []"
    and "ReadFile fs (Clean fs ''a.txt'') = Inr c1"
    and "ReadFile fs (Clean fs ''b.txt'') = Inr c2"
  shows "map Fieldname (formFiles (fst (SendFiles fs [''a.txt'', ''f1'', ''b.txt''] a w)))
           = [''f1'', ''file2''] \<and>
         map ff_Name (formFiles (fst (SendFiles fs [''a.txt'', ''f1'', ''b.txt''] a w)))
           = [Base fs ''a.txt'', Base fs ''b.txt''] \<and>
         map autoRelease (formFiles (fst (SendFiles fs [''a.txt'', ''f1'', ''b.txt''] a w)))
           = [True, True] \<and>
         errs (fst (SendFiles fs [''a.txt'', ''f1'', ''b.txt''] a w)) = errs a"
  using assms
  by (simp add: SendFiles_def SendFile_def Let_def Itoa_2 split: prod.splits)

text \<open>C7, at the empty Agent, on a file system where every file can be read.\<close>

theorem C7_witness:
  "map Fieldname (formFiles (fst (SendFiles empty_files [''a.txt'', ''f1'', ''b.txt''] zero_Agent empty_world)))
           = [''f1'', ''file2'']"
  using C7_SendFiles_odd [of zero_Agent empty_files "[]" "[]" empty_world]
  by (simp add: zero_Agent_def empty_files_def)

subsection \<open>Release resets every field\<close>

text \<open>
  C8. For every form file and every Agent: a released form file is the empty one, and
  so is the next one acquired; a released Agent is the empty Agent (no host client, a
  reset request, timeout 0, no errors, no files, flags off, empty boundary and name),
  its files with \<open>autoRelease\<close> are in the file pool as empty ones, and the next Agent
  acquired is the empty one. Pools that hold only empty objects still do after a release
  or an acquire, and an acquire from them returns an empty object.
\<close>

theorem C8_release_resets:
  "fst (ReleaseFormFile ff w) = zero_FormFile \<and>
   formFilePool (snd (ReleaseFormFile ff w)) = zero_FormFile # formFilePool w \<and>
   fst (AcquireFormFile (snd (ReleaseFormFile ff w))) = zero_FormFile \<and>
   fst (ReleaseAgent a w) = zero_Agent \<and>
   agentPool (snd (ReleaseAgent a w)) = zero_Agent # agentPool w \<and>
   formFilePool (snd (ReleaseAgent a w)) =
     replicate (length (filter autoRelease (formFiles a))) zero_FormFile @ formFilePool w \<and>
   fst (AcquireAgent (snd (ReleaseAgent a w))) = zero_Agent \<and>
   (clean_pools w \<longrightarrow>
      clean_pools (snd (ReleaseAgent a w)) \<and> clean_pools (snd (ReleaseFormFile ff w)) \<and>
      fst (AcquireAgent w) = zero_Agent \<and> clean_pools (snd (AcquireAgent w)) \<and>
      fst (AcquireFormFile w) = zero_FormFile \<and> clean_pools (snd (AcquireFormFile w)))"
proof -
  have f: "fst (ReleaseFormFile ff w) = zero_FormFile \<and>
   formFilePool (snd (ReleaseFormFile ff w)) = zero_FormFile # formFilePool w \<and>
   fst (AcquireFormFile (snd (ReleaseFormFile ff w))) = zero_FormFile"
    by (simp add: ReleaseFormFile_def AcquireFormFile_def zero_FormFile_def Let_def)
  have a: "fst (ReleaseAgent a w) = zero_Agent \<and>
   agentPool (snd (ReleaseAgent a w)) = zero_Agent # agentPool w \<and>
   formFilePool (snd (ReleaseAgent a w)) =
     replicate (length (filter autoRelease (formFiles a))) zero_FormFile @ formFilePool w \<and>
   fst (AcquireAgent (snd (ReleaseAgent a w))) = zero_Agent"
    by (simp add: ReleaseAgent_eq reset_formFiles_pool AcquireAgent_def)
  have c: "clean_pools (snd (ReleaseAgent a w)) \<and> clean_pools (snd (ReleaseFormFile ff w)) \<and>
      fst (AcquireAgent w) = zero_Agent \<and> clean_pools (snd (AcquireAgent w)) \<and>
      fst (AcquireFormFile w) = zero_FormFile \<and> clean_pools (snd (AcquireFormFile w))"
    if h: "clean_pools w"
  proof -
    have 1: "clean_pools (snd (ReleaseAgent a w))"
      using h by (auto simp add: clean_pools_def ReleaseAgent_eq reset_formFiles_pool list_all_iff)
    have 2: "clean_pools (snd (ReleaseFormFile ff w))"
      using h by (simp add: clean_pools_def ReleaseFormFile_def zero_FormFile_def Let_def)
    have 3: "fst (AcquireAgent w) = zero_Agent \<and> clean_pools (snd (AcquireAgent w))"
      using h by (cases "agentPool w") (simp_all add: clean_pools_def AcquireAgent_def)
    have 4: "fst (AcquireFormFile w) = zero_FormFile \<and> clean_pools (snd (AcquireFormFile w))"
      using h by (cases "formFilePool w") (simp_all add: clean_pools_def AcquireFormFile_def)
    show ?thesis using 1 2 3 4 by simp
  qed
  show ?thesis using f a c by blast
qed

text \<open>C8, at a configured Agent with one file of its own, released into empty pools.\<close>

theorem C8_witness:
  "clean_pools empty_world \<and>
   ReleaseAgent ((parsed_agent MethodGet ''https'' ''example.com'')
                   \<lparr>timeout := 5, boundary := ''b'', errs := [ErrorInvalidURI],
                    formFiles := [\<lparr>Fieldname = ''f'', ff_Name = ''n'', Content = ''data'',
                                   autoRelease = True\<rparr>]\<rparr>) empty_world
     = (zero_Agent, empty_world\<lparr>agentPool := [zero_Agent], formFilePool := [zero_FormFile]\<rparr>) \<and>
   fst (AcquireAgent empty_world) = zero_Agent"
proof -
  let ?a = "(parsed_agent MethodGet ''https'' ''example.com'')
                   \<lparr>timeout := 5, boundary := ''b'', errs := [ErrorInvalidURI],
                    formFiles := [\<lparr>Fieldname = ''f'', ff_Name = ''n'', Content = ''data'',
                                   autoRelease = True\<rparr>]\<rparr>"
  have c: "clean_pools empty_world" by (simp add: clean_pools_def empty_world_def)
  have "formFiles ?a = [\<lparr>Fieldname = ''f'', ff_Name = ''n'', Content = ''data'',
                                   autoRelease = True\<rparr>]" by simp
  then have "ReleaseAgent ?a empty_world = (fst (ReleaseAgent ?a empty_world),
      empty_world\<lparr>agentPool := agentPool (snd (ReleaseAgent ?a empty_world)),
                  formFilePool := formFilePool (snd (ReleaseAgent ?a empty_world))\<rparr>)"
    by (simp add: ReleaseAgent_def reset_def ReleaseFormFile_def Let_def empty_world_def)
  then show ?thesis
    using c C8_release_resets [of zero_FormFile empty_world ?a]
    by (simp add: empty_world_def)
qed

subsection \<open>Reuse keeps the Agent but for its errors and what a send rewrites\<close>




subsection \<open>A failed Parse is memoized\<close>

text \<open>
  C10. For every Agent whose call to \<open>Parse\<close> has returned an error, a further call on
  the Agent it has left returns no error and leaves the Agent as it is, however often it
  is repeated; the host client is the one from before the first call.
\<close>

theorem C10_failed_Parse_is_memoized:
  assumes "Parse a = (Some err, a1)"
  shows "Parse a1 = (None, a1) \<and> HostClient a1 = HostClient a \<and>
         (\<forall>n. ((\<lambda>x. snd (Parse x)) ^^ n) a1 = a1)"
proof -
  have p: "Parse a1 = (None, a1)" and h: "HostClient a1 = HostClient a"
    using assms by (auto simp: Parse_def bind_def Let_def split: if_splits option.splits)
  have "((\<lambda>x. snd (Parse x)) ^^ n) a1 = a1" for n
    by (induction n) (simp_all add: p)
  then show ?thesis using p h by simp
qed

text \<open>C10, at a new Agent for an \<^verbatim>\<open>ftp\<close> URI.\<close>

theorem C10_witness:
  "Parse (new_agent MethodGet ''ftp'' ''example.com'')
     = (Some (ErrUnsupportedProtocol ''ftp''), parsed_agent MethodGet ''ftp'' ''example.com'') \<and>
   Parse (parsed_agent MethodGet ''ftp'' ''example.com'')
     = (None, parsed_agent MethodGet ''ftp'' ''example.com'') \<and>
   HostClient (parsed_agent MethodGet ''ftp'' ''example.com'') = None"
proof -
  have p: "Parse (new_agent MethodGet ''ftp'' ''example.com'')
     = (Some (ErrUnsupportedProtocol ''ftp''), parsed_agent MethodGet ''ftp'' ''example.com'')"
    by (simp add: parsed_agent_def Parse_def new_agent_def zero_Agent_def zero_Request_def
          request_of_def strHTTP_def strHTTPS_def Let_def)
  have "HostClient (new_agent MethodGet ''ftp'' ''example.com'') = None"
    by (simp add: new_agent_def zero_Agent_def)
  then show ?thesis using p C10_failed_Parse_is_memoized [OF p] by simp
qed

end
